theory Spec2Isabelle
  imports Main "HOL-Library.Sublist" "HOL-Library.AList"
begin

section \<open>The webpack configuration generator (generator-theia, WebpackGenerator)\<close>

text \<open>
  \<^verbatim>\<open>WebpackGenerator\<close> extends \<^verbatim>\<open>AbstractGenerator\<close>, whose declaration is not part of
  the sources at hand. What the template reads from it is kept as the fields of a record:
  the text returned by \<^verbatim>\<open>compileCopyright()\<close>, the path returned by
  \<^verbatim>\<open>node_modulesPath()\<close>, \<^verbatim>\<open>model.target\<close>, and the two tests behind
  \<^verbatim>\<open>ifWeb\<close> and \<^verbatim>\<open>ifElectron\<close> (is the application generated for the browser,
  is it generated for Electron).
\<close>

record generator =
  compileCopyright :: string
  node_modulesPath :: string
  target :: string
  isWeb :: bool
  isElectron :: bool

text \<open>
  Modelled from the spec: \<^verbatim>\<open>AbstractGenerator.ifWeb\<close> and
  \<^verbatim>\<open>AbstractGenerator.ifElectron\<close> are missing from the sources. The application is
  "rendered either in a browser or an Electron shell": \<^verbatim>\<open>ifWeb(value)\<close> is the value
  when generating for the browser and the empty string otherwise;
  \<^verbatim>\<open>ifElectron(value, defaultValue)\<close> is the value when generating for Electron and
  the default otherwise.
\<close>

definition ifWeb :: "generator \<Rightarrow> string \<Rightarrow> string" where
  "ifWeb g v = (if isWeb g then v else [])"

definition ifElectron :: "generator \<Rightarrow> string \<Rightarrow> string \<Rightarrow> string" where
  "ifElectron g v defaultValue = (if isElectron g then v else defaultValue)"

text \<open>
  The template literal of \<^verbatim>\<open>compileWebpackConfig\<close>, cut at its interpolations into
  named pieces. A piece is the list of its lines, and \<open>nlines\<close> puts a line break before
  each of them, as every piece of the template starts with a line break. A backslash is
  \<open>CHR 0x5C\<close> (the template's \<^verbatim>\<open>\\\<close> is one backslash), a quote that ends a
  literal is \<open>CHR 0x27\<close>, an empty line is \<open>[]\<close>.
\<close>

definition nlines :: "string list \<Rightarrow> string" where
  "nlines ls = concat (map (\<lambda>l. CHR ''\<newline>'' # l) ls)"

definition preamble :: "generator \<Rightarrow> string list" where
  \<open>preamble g =
     [''// @ts-check'',
      ''const path = require(\'path\');'',
      ''const webpack = require(\'webpack\');'',
      ''const CopyWebpackPlugin = require(\'copy-webpack-plugin\');'',
      ''const CircularDependencyPlugin = require(\'circular-dependency-plugin\');'',
      [],
      ''const outputPath = path.resolve(__dirname, \'lib\');'',
      [],
      ''const monacoEditorPath = '' @ CHR 0x27 # node_modulesPath g @ ''/monaco-editor-core/min/vs\';'',
      ''const monacoLanguagesPath = '' @ CHR 0x27 # node_modulesPath g @ ''/monaco-languages/release\';'',
      ''const monacoCssLanguagePath = '' @ CHR 0x27 # node_modulesPath g @ ''/monaco-css/release/min\';'',
      ''const monacoJsonLanguagePath = '' @ CHR 0x27 # node_modulesPath g @ ''/monaco-json/release/min\';'',
      ''const monacoHtmlLanguagePath = '' @ CHR 0x27 # node_modulesPath g @ ''/monaco-html/release/min\';'']\<close>

definition requirePath_and_port :: "generator \<Rightarrow> string list" where
  \<open>requirePath_and_port g =
     [''const requirePath = '' @ CHR 0x27 # node_modulesPath g @ ''/requirejs/require.js\';'',
      [],
      ''const port = require(\'yargs\').argv.port || 3000;'']\<close>

definition exports_head :: "generator \<Rightarrow> string list" where
  \<open>exports_head g =
     [[],
      ''module.exports = {'',
      ''    entry: path.resolve(__dirname, \'src-gen/frontend/index.js\'),'',
      ''    output: {'',
      ''        filename: \'bundle.js\','',
      ''        path: outputPath'',
      ''    },'',
      ''    target: '' @ CHR 0x27 # target g @ ''\','',
      ''    node: {'']\<close>

definition node_electron :: "string list" where
  \<open>node_electron =
     [''        __dirname: false,'',
      ''        __filename: false'']\<close>

definition node_empty :: "string list" where
  \<open>node_empty =
     [''        fs: \'empty\','',
      ''        child_process: \'empty\','',
      ''        net: \'empty\','',
      ''        crypto: \'empty'' @ [CHR 0x27]]\<close>

definition module_and_plugins_head :: "string list" where
  \<open>module_and_plugins_head =
     [''    },'',
      ''    module: {'',
      ''        rules: ['',
      ''            {'',
      ''                test: /'' @ CHR 0x5C # ''.css$/,'',
      ''                loader: \'style-loader!css-loader'' @ [CHR 0x27],
      ''            },'',
      ''            {'',
      ''                test: /'' @ CHR 0x5C # ''.(ttf|eot|svg)('' @ CHR 0x5C # ''?v='' @ CHR 0x5C # ''d+'' @ CHR 0x5C # ''.'' @ CHR 0x5C # ''d+'' @ CHR 0x5C # ''.'' @ CHR 0x5C # ''d+)?$/,'',
      ''                loader: \'url-loader?limit=10000&mimetype=image/svg+xml'' @ [CHR 0x27],
      ''            },'',
      ''            {'',
      ''                test: /'' @ CHR 0x5C # ''.js$/,'',
      ''                enforce: \'pre\','',
      ''                loader: \'source-map-loader'' @ [CHR 0x27],
      ''            },'',
      ''            {'',
      ''                test: /'' @ CHR 0x5C # ''.woff(2)?('' @ CHR 0x5C # ''?v=[0-9]'' @ CHR 0x5C # ''.[0-9]'' @ CHR 0x5C # ''.[0-9])?$/,'',
      ''                loader: "url-loader?limit=10000&mimetype=application/font-woff"'',
      ''            }'',
      ''        ],'',
      ''        noParse: /vscode-languageserver-types|vscode-uri/'',
      ''    },'',
      ''    resolve: {'',
      ''        extensions: [\'.js\'],'',
      ''        alias: {'',
      ''            \'vs\': path.resolve(outputPath, monacoEditorPath)'',
      ''        }'',
      ''    },'',
      ''    devtool: \'source-map\','',
      ''    plugins: ['',
      ''        new webpack.HotModuleReplacementPlugin(),'',
      ''        new CopyWebpackPlugin(['']\<close>

definition require_copy_rule :: "string list" where
  \<open>require_copy_rule =
     [''            {'',
      ''                from: requirePath,'',
      ''                to: \'.'' @ [CHR 0x27],
      ''            },'']\<close>

definition copy_rules_and_stats :: "string list" where
  \<open>copy_rules_and_stats =
     [''            {'',
      ''                from: monacoEditorPath,'',
      ''                to: \'vs'' @ [CHR 0x27],
      ''            },'',
      ''            {'',
      ''                from: monacoLanguagesPath,'',
      ''                to: \'vs/basic-languages'' @ [CHR 0x27],
      ''            },'',
      ''            {'',
      ''                from: monacoCssLanguagePath,'',
      ''                to: \'vs/language/css'' @ [CHR 0x27],
      ''            },'',
      ''            {'',
      ''                from: monacoJsonLanguagePath,'',
      ''                to: \'vs/language/json'' @ [CHR 0x27],
      ''            },'',
      ''            {'',
      ''                from: monacoHtmlLanguagePath,'',
      ''                to: \'vs/language/html'' @ [CHR 0x27],
      ''            }'',
      ''        ]),'',
      ''        new CircularDependencyPlugin({'',
      ''            exclude: /(node_modules|examples)'' @ CHR 0x5C # ''/./,'',
      ''            failOnError: false // https://github.com/nodejs/readable-stream/issues/280#issuecomment-297076462'',
      ''        })'',
      ''    ],'',
      ''    stats: {'',
      ''        warnings: true'',
      ''    }'']\<close>

definition devServer_block :: "string list" where
  \<open>devServer_block =
     [''    devServer: {'',
      ''        inline: true,'',
      ''        hot: true,'',
      ''        proxy: {'',
      ''            \'/services/*\': {'',
      ''                target: \'ws://localhost:\' + port,'',
      ''                ws: true'',
      ''            },'',
      ''            \'*\': \'http://localhost:\' + port,'',
      ''        },'',
      ''        historyApiFallback: true,'',
      ''        stats: {'',
      ''            colors: true,'',
      ''            warnings: false'',
      ''        },'',
      ''        host: process.env.HOST,'',
      ''        port: process.env.PORT'',
      ''    }'']\<close>

definition exports_end :: "string list" where
  \<open>exports_end =
     [''};'']\<close>

definition compileWebpackConfig :: "generator \<Rightarrow> string" where
  "compileWebpackConfig g =
     compileCopyright g @
     nlines (preamble g) @
     ifWeb g (nlines (requirePath_and_port g)) @
     nlines (exports_head g) @
     ifElectron g (nlines node_electron) (nlines node_empty) @
     nlines module_and_plugins_head @
     ifWeb g (nlines require_copy_rule) @
     nlines copy_rules_and_stats @
     ifWeb g ('','' @ nlines devServer_block) @
     nlines exports_end"

text \<open>
  The in-memory file system editor (\<^verbatim>\<open>Base.MemFsEditor\<close>) as a map from paths to
  contents: \<^verbatim>\<open>exists\<close> tests for an entry and \<^verbatim>\<open>write\<close> stores one.
\<close>

type_synonym mem_fs = "string \<rightharpoonup> string"

definition fs_exists :: "mem_fs \<Rightarrow> string \<Rightarrow> bool" where
  "fs_exists fs p = (fs p \<noteq> None)"

definition fs_write :: "mem_fs \<Rightarrow> string \<Rightarrow> string \<Rightarrow> mem_fs" where
  "fs_write fs p contents = fs(p \<mapsto> contents)"

definition generate :: "generator \<Rightarrow> mem_fs \<Rightarrow> mem_fs" where
  "generate g fs =
     (if \<not> fs_exists fs ''webpack.config.js''
      then fs_write fs ''webpack.config.js'' (compileWebpackConfig g)
      else fs)"

subsection \<open>Notions for stating what the configuration contains\<close>

text \<open>The lines of a text.\<close>

fun lines_of :: "string \<Rightarrow> string list" where
  "lines_of [] = [[]]"
| "lines_of (c # cs) =
     (if c = CHR ''\<newline>'' then [] # lines_of cs
      else (c # hd (lines_of cs)) # tl (lines_of cs))"






section \<open>The npm registry client (view)\<close>

text \<open>
  JavaScript strings are modelled as \<^typ>\<open>string\<close>, the bytes of their UTF-8 encoding; a
  character below 128 is one byte, as it is one UTF-16 code unit in JavaScript.
\<close>

text \<open>
  \<^verbatim>\<open>encodeURIComponent\<close> (ECMAScript): letters, digits and \<^verbatim>\<open>- _ . ! ~ * ' ( )\<close> are
  kept, every other byte of the UTF-8 encoding becomes \<^verbatim>\<open>%XX\<close> in upper-case
  hexadecimal.
\<close>

definition uriUnescaped :: "char \<Rightarrow> bool" where
  \<open>uriUnescaped c \<longleftrightarrow>
     c \<in> set (''ABCDEFGHIJKLMNOPQRSTUVWXYZabcdefghijklmnopqrstuvwxyz0123456789-_.!~*()'' @ [CHR 0x27])\<close>

definition hexDigit :: "nat \<Rightarrow> char" where
  "hexDigit n = ''0123456789ABCDEF'' ! (n mod 16)"

definition percentEncode :: "char \<Rightarrow> string" where
  "percentEncode c = [CHR ''%'', hexDigit (of_char c div 16), hexDigit (of_char c mod 16)]"

definition encodeURIComponent :: "string \<Rightarrow> string" where
  "encodeURIComponent s = concat (map (\<lambda>c. if uriUnescaped c then [c] else percentEncode c) s)"

text \<open>The decimal text of a number, as a template literal prints a status code.\<close>

fun decimal :: "nat \<Rightarrow> string" where
  "decimal n = (if n < 10 then [hexDigit n] else decimal (n div 10) @ [hexDigit (n mod 10)])"

declare decimal.simps [simp del]

subsection \<open>JSON.parse\<close>

text \<open>
  \<^verbatim>\<open>JSON.parse\<close> follows the JSON grammar of ECMA-404: white space is space, tab, line
  feed and carriage return; a value is \<^verbatim>\<open>null\<close>, \<^verbatim>\<open>true\<close>, \<^verbatim>\<open>false\<close>, a number, a
  string, an array or an object; text after the value other than white space is a syntax
  error. The result keeps number and string tokens as written (no conversion to doubles,
  escapes checked but not decoded). \<open>None\<close> stands for the \<^verbatim>\<open>SyntaxError\<close> that
  \<^verbatim>\<open>JSON.parse\<close> throws.
\<close>

datatype json =
    JNull
  | JBool bool
  | JNumber string
  | JString string
  | JArray "json list"
  | JObject "(string \<times> json) list"

definition isWhiteSpace :: "char \<Rightarrow> bool" where
  "isWhiteSpace c \<longleftrightarrow> c = CHR '' '' \<or> c = CHR 0x09 \<or> c = CHR 0x0A \<or> c = CHR 0x0D"

definition skipWhiteSpace :: "string \<Rightarrow> string" where
  "skipWhiteSpace s = dropWhile isWhiteSpace s"

definition isDigit :: "char \<Rightarrow> bool" where
  "isDigit c \<longleftrightarrow> c \<in> set ''0123456789''"

definition isHexDigit :: "char \<Rightarrow> bool" where
  "isHexDigit c \<longleftrightarrow> c \<in> set ''0123456789abcdefABCDEF''"

text \<open>One or more digits, then the rest.\<close>

definition scanDigits :: "string \<Rightarrow> (string \<times> string) option" where
  "scanDigits s =
     (if takeWhile isDigit s = [] then None
      else Some (takeWhile isDigit s, dropWhile isDigit s))"

definition scanInt :: "string \<Rightarrow> (string \<times> string) option" where
  "scanInt s =
     (case s of
        [] \<Rightarrow> None
      | c # cs \<Rightarrow>
          if c = CHR ''0'' then Some ([c], cs)
          else if isDigit c then Some (c # takeWhile isDigit cs, dropWhile isDigit cs)
          else None)"

definition scanFraction :: "string \<Rightarrow> (string \<times> string) option" where
  "scanFraction s =
     (case s of
        [] \<Rightarrow> Some ([], [])
      | c # cs \<Rightarrow>
          if c = CHR ''.'' then
            (case scanDigits cs of None \<Rightarrow> None | Some (ds, r) \<Rightarrow> Some (c # ds, r))
          else Some ([], s))"

definition scanExponent :: "string \<Rightarrow> (string \<times> string) option" where
  "scanExponent s =
     (case s of
        [] \<Rightarrow> Some ([], [])
      | c # cs \<Rightarrow>
          if c = CHR ''e'' \<or> c = CHR ''E'' then
            (case cs of
               [] \<Rightarrow> None
             | d # ds \<Rightarrow>
                 if d = CHR ''+'' \<or> d = CHR ''-'' then
                   (case scanDigits ds of None \<Rightarrow> None | Some (es, r) \<Rightarrow> Some (c # d # es, r))
                 else
                   (case scanDigits cs of None \<Rightarrow> None | Some (es, r) \<Rightarrow> Some (c # es, r)))
          else Some ([], s))"

definition scanNumber :: "string \<Rightarrow> (string \<times> string) option" where
  "scanNumber s =
     (let (sign, s1) = (case s of c # cs \<Rightarrow> if c = CHR ''-'' then ([c], cs) else ([], s) | [] \<Rightarrow> ([], s))
      in case scanInt s1 of
           None \<Rightarrow> None
         | Some (i, s2) \<Rightarrow>
             (case scanFraction s2 of
                None \<Rightarrow> None
              | Some (f, s3) \<Rightarrow>
                  (case scanExponent s3 of
                     None \<Rightarrow> None
                   | Some (e, s4) \<Rightarrow> Some (sign @ i @ f @ e, s4))))"

text \<open>The characters of a string after its opening quote, up to the closing quote.\<close>

fun scanChars :: "string \<Rightarrow> (string \<times> string) option" where
  "scanChars [] = None"
| "scanChars (c # cs) =
     (if c = CHR 0x22 then Some ([], cs)
      else if c = CHR 0x5C then
        (case cs of
           [] \<Rightarrow> None
         | e # r \<Rightarrow>
             if e \<in> set (''/bfnrt'' @ [CHR 0x22, CHR 0x5C]) then
               (case scanChars r of None \<Rightarrow> None | Some (t, r') \<Rightarrow> Some (c # e # t, r'))
             else if e = CHR ''u'' then
               (case r of
                  h1 # h2 # h3 # h4 # r4 \<Rightarrow>
                    if isHexDigit h1 \<and> isHexDigit h2 \<and> isHexDigit h3 \<and> isHexDigit h4 then
                      (case scanChars r4 of
                         None \<Rightarrow> None
                       | Some (t, r') \<Rightarrow> Some (c # e # h1 # h2 # h3 # h4 # t, r'))
                    else None
                | _ \<Rightarrow> None)
             else None)
      else if (of_char c :: nat) < 32 then None
      else (case scanChars cs of None \<Rightarrow> None | Some (t, r') \<Rightarrow> Some (c # t, r')))"

text \<open>
  Values, array elements and object members by recursive descent. The first argument
  bounds the number of nested calls; \<open>JSON_parse\<close> supplies more than any text needs
  (every second call consumes a character).
\<close>

fun parseValue :: "nat \<Rightarrow> string \<Rightarrow> (json \<times> string) option"
  and parseElements :: "nat \<Rightarrow> string \<Rightarrow> (json list \<times> string) option"
  and parseMembers :: "nat \<Rightarrow> string \<Rightarrow> ((string \<times> json) list \<times> string) option"
where
  "parseValue 0 s = None"
| "parseValue (Suc n) s =
     (if take 4 s = ''null'' then Some (JNull, drop 4 s)
      else if take 4 s = ''true'' then Some (JBool True, drop 4 s)
      else if take 5 s = ''false'' then Some (JBool False, drop 5 s)
      else if take 1 s = [CHR 0x22] then
        (case scanChars (drop 1 s) of None \<Rightarrow> None | Some (t, r) \<Rightarrow> Some (JString t, r))
      else if take 1 s = ''['' then
        (if take 1 (skipWhiteSpace (drop 1 s)) = '']''
         then Some (JArray [], drop 1 (skipWhiteSpace (drop 1 s)))
         else (case parseElements n (skipWhiteSpace (drop 1 s)) of
                 None \<Rightarrow> None
               | Some (vs, r) \<Rightarrow> Some (JArray vs, r)))
      else if take 1 s = ''{'' then
        (if take 1 (skipWhiteSpace (drop 1 s)) = ''}''
         then Some (JObject [], drop 1 (skipWhiteSpace (drop 1 s)))
         else (case parseMembers n (skipWhiteSpace (drop 1 s)) of
                 None \<Rightarrow> None
               | Some (ms, r) \<Rightarrow> Some (JObject ms, r)))
      else (case scanNumber s of None \<Rightarrow> None | Some (t, r) \<Rightarrow> Some (JNumber t, r)))"
| "parseElements 0 s = None"
| "parseElements (Suc n) s =
     (case parseValue n s of
        None \<Rightarrow> None
      | Some (v, r) \<Rightarrow>
          if take 1 (skipWhiteSpace r) = '','' then
            (case parseElements n (skipWhiteSpace (drop 1 (skipWhiteSpace r))) of
               None \<Rightarrow> None
             | Some (vs, r') \<Rightarrow> Some (v # vs, r'))
          else if take 1 (skipWhiteSpace r) = '']'' then Some ([v], drop 1 (skipWhiteSpace r))
          else None)"
| "parseMembers 0 s = None"
| "parseMembers (Suc n) s =
     (if take 1 s = [CHR 0x22] then
        (case scanChars (drop 1 s) of
           None \<Rightarrow> None
         | Some (k, r) \<Rightarrow>
             if take 1 (skipWhiteSpace r) = '':'' then
               (case parseValue n (skipWhiteSpace (drop 1 (skipWhiteSpace r))) of
                  None \<Rightarrow> None
                | Some (v, r1) \<Rightarrow>
                    if take 1 (skipWhiteSpace r1) = '','' then
                      (case parseMembers n (skipWhiteSpace (drop 1 (skipWhiteSpace r1))) of
                         None \<Rightarrow> None
                       | Some (ms, r2) \<Rightarrow> Some ((k, v) # ms, r2))
                    else if take 1 (skipWhiteSpace r1) = ''}''
                    then Some ([(k, v)], drop 1 (skipWhiteSpace r1))
                    else None)
             else None)
      else None)"

definition JSON_parse :: "string \<Rightarrow> json option" where
  "JSON_parse text =
     (case parseValue (2 * length text + 2) (skipWhiteSpace text) of
        None \<Rightarrow> None
      | Some (v, r) \<Rightarrow> if skipWhiteSpace r = [] then Some v else None)"

subsection \<open>view\<close>

record ViewParam =
  name :: string
  abbreviated :: "bool option"

text \<open>The options handed to \<^verbatim>\<open>request\<close>, and what it calls back with.\<close>

record request_options =
  url :: string
  headers :: "(string \<times> string) list"

record response =
  statusCode :: nat
  statusMessage :: string

type_synonym 'e reply = "'e option \<times> response \<times> string"

datatype 'e error = RequestError 'e | Error string | SyntaxError

datatype ('e, 'a) promise = Pending | Resolved 'a | Rejected 'e

text \<open>Lines 216 to 227: the URL and the headers.\<close>

definition view_options :: "ViewParam \<Rightarrow> request_options" where
  "view_options param =
     (let url0 = ''https://registry.npmjs.org/'';
          url1 = (if take 1 (name param) = ''@''
                  then url0 @ ''@'' @ encodeURIComponent (drop 1 (name param))
                  else url0 @ encodeURIComponent (name param));
          headers0 = [];
          headers1 = (if abbreviated param = None \<or> abbreviated param = Some True
                      then headers0 @
                        [(''Accept'',
                          ''application/vnd.npm.install-v1+json; q=1.0, application/json; q=0.8, */*'')]
                      else headers0)
      in \<lparr>url = url1, headers = headers1\<rparr>)"

text \<open>
  The callback given to \<^verbatim>\<open>request\<close>. It returns the state it leaves the promise in,
  and the exception that escapes from it, if any: \<^verbatim>\<open>JSON.parse\<close> is called outside
  any \<^verbatim>\<open>try\<close>, after the executor of the promise has returned, so its
  \<^verbatim>\<open>SyntaxError\<close> is thrown to the caller of the callback and the promise stays
  pending.
\<close>

definition view_callback ::
  "string \<Rightarrow> 'e reply \<Rightarrow> ('e error, json) promise \<times> 'e error option" where
  "view_callback u reply =
     (case reply of (err, response, body) \<Rightarrow>
        (case err of
           Some e \<Rightarrow> (Rejected (RequestError e), None)
         | None \<Rightarrow>
             if statusCode response \<noteq> 200 then
               (Rejected (Error (decimal (statusCode response) @ '': '' @
                                 statusMessage response @ '' for '' @ u)), None)
             else
               (case JSON_parse body of
                  None \<Rightarrow> (Pending, Some SyntaxError)
                | Some data \<Rightarrow> (Resolved data, None))))"

text \<open>
  \<^verbatim>\<open>view\<close>, with the HTTP client as a parameter: what \<^verbatim>\<open>request\<close> calls back
  with for given options.
\<close>

definition view ::
  "(request_options \<Rightarrow> 'e reply) \<Rightarrow> ViewParam \<Rightarrow> ('e error, json) promise \<times> 'e error option" where
  "view request param =
     (let options = view_options param
      in view_callback (url options) (request options))"

text \<open>An HTTP client that answers every request with the same reply.\<close>

definition replying :: "'e reply \<Rightarrow> request_options \<Rightarrow> 'e reply" where
  "replying r options = r"

section \<open>The inversify container\<close>

text \<open>
  The dependency-injection container of the \<^verbatim>\<open>inversify\<close> library, as far as the binding
  modules use it. A service identifier (a class or a symbol) is its name. A binding keeps
  what it was bound to, its scope and, once a singleton has been resolved, the cached
  result. A container has its own bindings, a parent and the default scope of its options.
\<close>

datatype scope = Transient | Singleton

text \<open>
  What a resolution returns: an instance of a class created by the container (the class and
  the identity of the object), a plain object handed to \<^verbatim>\<open>toConstantValue\<close>, the
  function of an auto factory, or the function of a provider.
\<close>

datatype injected =
    Obj string nat
  | Plain "(string \<times> json) list"
  | FactoryFunction string
  | ProviderFunction string

text \<open>
  The dynamic values and providers of these modules all read
  \<^verbatim>\<open>ctx => ctx.container.get(id)\<close>; the binding keeps the \<^verbatim>\<open>id\<close>. An auto factory
  for \<^verbatim>\<open>id\<close> is \<^verbatim>\<open>() => context.container.get(id)\<close>.
\<close>

datatype binding_type =
    Invalid
  | Instance string
  | ConstantValue injected
  | DynamicValue string
  | Factory string
  | Provider string

record binding =
  serviceIdentifier :: string
  bindingType :: binding_type
  scope :: scope
  cache :: "injected option"

datatype container =
  Container (bindings: "binding list") (parent: "container option") (defaultScope: scope)

datatype container_error =
    CannotUnbind string
  | NotRegistered string
  | AmbiguousMatch string
  | InvalidBindingType string
  | RecursionLimit

subsection \<open>Binding syntax\<close>

definition toSelf :: "binding \<Rightarrow> binding" where
  "toSelf b = b\<lparr>bindingType := Instance (serviceIdentifier b)\<rparr>"

definition to :: "string \<Rightarrow> binding \<Rightarrow> binding" where
  "to implementation b = b\<lparr>bindingType := Instance implementation\<rparr>"

definition toConstantValue :: "(string \<times> json) list \<Rightarrow> binding \<Rightarrow> binding" where
  "toConstantValue v b = b\<lparr>bindingType := ConstantValue (Plain v)\<rparr>"

definition toDynamicValue :: "string \<Rightarrow> binding \<Rightarrow> binding" where
  "toDynamicValue sid b = b\<lparr>bindingType := DynamicValue sid\<rparr>"





subsection \<open>bind, unbind, rebind\<close>

definition isBound :: "container \<Rightarrow> string \<Rightarrow> bool" where
  "isBound c sid \<longleftrightarrow> (\<exists>b \<in> set (bindings c). serviceIdentifier b = sid)"

text \<open>
  \<^verbatim>\<open>bind(id)\<close> adds a binding with the container's default scope; the syntax that
  follows it in the source (\<^verbatim>\<open>.toSelf().inSingletonScope()\<close>) is the second argument.
\<close>

definition bind ::
  "string \<Rightarrow> (binding \<Rightarrow> binding) \<Rightarrow> container \<Rightarrow> container_error + container" where
  "bind sid syntax c =
     Inr (Container
       (bindings c @
          [syntax \<lparr>serviceIdentifier = sid, bindingType = Invalid, scope = defaultScope c,
                   cache = None\<rparr>])
       (parent c) (defaultScope c))"

text \<open>\<^verbatim>\<open>unbind(id)\<close> removes the container's own bindings of \<^verbatim>\<open>id\<close> and throws when there are none.\<close>

definition unbind :: "string \<Rightarrow> container \<Rightarrow> container_error + container" where
  "unbind sid c =
     (if isBound c sid
      then Inr (Container (filter (\<lambda>b. serviceIdentifier b \<noteq> sid) (bindings c))
                  (parent c) (defaultScope c))
      else Inl (CannotUnbind sid))"

definition rebind ::
  "string \<Rightarrow> (binding \<Rightarrow> binding) \<Rightarrow> container \<Rightarrow> container_error + container" where
  "rebind sid syntax c =
     (case unbind sid c of
        Inl e \<Rightarrow> Inl e
      | Inr c' \<Rightarrow> bind sid syntax c')"

text \<open>Statements run in order; the first exception ends the run.\<close>

fun statements ::
  "(container \<Rightarrow> container_error + container) list \<Rightarrow> container \<Rightarrow> container_error + container" where
  "statements [] c = Inr c"
| "statements (s # ss) c =
     (case s c of
        Inl e \<Rightarrow> Inl e
      | Inr c' \<Rightarrow> statements ss c')"

subsection \<open>Resolution\<close>

text \<open>
  The bindings a request sees: the container's own bindings of the identifier if it has
  any, else those its parent sees. Each comes with the number of steps up the chain of
  parents.
\<close>

fun getBindings :: "container \<Rightarrow> string \<Rightarrow> (nat \<times> binding) list" where
  "getBindings (Container bs p ds) sid =
     (if \<exists>b \<in> set bs. serviceIdentifier b = sid
      then map (Pair 0) (filter (\<lambda>b. serviceIdentifier b = sid) bs)
      else (case p of
              None \<Rightarrow> []
            | Some q \<Rightarrow> map (\<lambda>(d, b). (Suc d, b)) (getBindings q sid)))"

text \<open>Storing the result of a singleton in its binding, \<open>d\<close> steps up.\<close>

fun activate :: "nat \<Rightarrow> string \<Rightarrow> injected \<Rightarrow> container \<Rightarrow> container" where
  "activate 0 sid v (Container bs p ds) =
     Container (map (\<lambda>b. if serviceIdentifier b = sid then b\<lparr>cache := Some v\<rparr> else b) bs) p ds"
| "activate (Suc d) sid v (Container bs p ds) =
     Container bs (map_option (activate d sid v) p) ds"

text \<open>
  \<^verbatim>\<open>container.get(id)\<close>. The state is the container and the number of objects created
  so far, which names the next object. No binding throws \<^verbatim>\<open>NOT_REGISTERED\<close>, several
  throw \<^verbatim>\<open>AMBIGUOUS_MATCH\<close>. A singleton that has been resolved returns its cache. A
  class is instantiated (the injection of its constructor arguments is not part of the
  model: the classes are declared outside these sources); a dynamic value resolves its
  identifier in the container the request was made on. The result of a singleton is
  stored. The first argument bounds the depth of nested requests, as the call stack does.
\<close>

fun get ::
  "nat \<Rightarrow> string \<Rightarrow> container \<times> nat \<Rightarrow> (container_error + injected) \<times> (container \<times> nat)" where
  "get 0 sid w = (Inl RecursionLimit, w)"
| "get (Suc k) sid (c, n) =
     (case getBindings c sid of
        [] \<Rightarrow> (Inl (NotRegistered sid), (c, n))
      | [(d, b)] \<Rightarrow>
          (case (if scope b = Singleton then cache b else None) of
             Some v \<Rightarrow> (Inr v, (c, n))
           | None \<Rightarrow>
               (case (case bindingType b of
                        Invalid \<Rightarrow> (Inl (InvalidBindingType sid), (c, n))
                      | Instance cls \<Rightarrow> (Inr (Obj cls n), (c, Suc n))
                      | ConstantValue v \<Rightarrow> (Inr v, (c, n))
                      | DynamicValue s \<Rightarrow> get k s (c, n)
                      | Factory s \<Rightarrow> (Inr (FactoryFunction s), (c, n))
                      | Provider s \<Rightarrow> (Inr (ProviderFunction s), (c, n))) of
                  (Inl e, w') \<Rightarrow> (Inl e, w')
                | (Inr v, (c', n')) \<Rightarrow>
                    (Inr v, (if scope b = Singleton then activate d sid v c' else c', n'))))
      | _ \<Rightarrow> (Inl (AmbiguousMatch sid), (c, n)))"


section \<open>The problem tree container (markers, problem-container)\<close>

text \<open>
  \<^verbatim>\<open>defaultTreeProps\<close>, \<^verbatim>\<open>MARKER_CONTEXT_MENU\<close> and \<^verbatim>\<open>createTreeContainer\<close> are
  imported from files that are not part of these sources; they are parameters. An object
  literal is the list of its properties; \<^verbatim>\<open>{...a, k: v}\<close> sets \<^verbatim>\<open>k\<close> in a copy of \<^verbatim>\<open>a\<close>.
\<close>

definition MARKER_TREE_PROPS :: "(string \<times> json) list \<Rightarrow> json \<Rightarrow> (string \<times> json) list" where
  "MARKER_TREE_PROPS defaultTreeProps MARKER_CONTEXT_MENU =
     AList.update ''contextMenuPath'' MARKER_CONTEXT_MENU defaultTreeProps"

definition MARKER_OPTIONS :: "(string \<times> json) list" where
  "MARKER_OPTIONS = [(''kind'', JString ''problem'')]"

definition createProblemTreeContainer ::
  "(container \<Rightarrow> container) \<Rightarrow> (string \<times> json) list \<Rightarrow> json \<Rightarrow> container
     \<Rightarrow> container_error + container" where
  "createProblemTreeContainer createTreeContainer defaultTreeProps MARKER_CONTEXT_MENU parent0 =
     (let child = createTreeContainer parent0
      in statements
          [unbind ''Tree'',
           bind ''ProblemTree'' toSelf,
           rebind ''ITree'' (toDynamicValue ''ProblemTree''),

           unbind ''TreeWidget'',
           bind ''ProblemWidget'' toSelf,

           unbind ''TreeModel'',
           bind ''ProblemTreeModel'' toSelf,
           rebind ''ITreeModel'' (toDynamicValue ''ProblemTreeModel''),

           bind ''MarkerTreeServices'' toSelf,

           rebind ''TreeProps''
             (toConstantValue (MARKER_TREE_PROPS defaultTreeProps MARKER_CONTEXT_MENU)),
           bind ''MarkerOptions'' (toConstantValue MARKER_OPTIONS)]
          child)"

text \<open>\<^verbatim>\<open>createProblemWidget\<close>: the widget resolved in the new container.\<close>

definition createProblemWidget ::
  "(container \<Rightarrow> container) \<Rightarrow> (string \<times> json) list \<Rightarrow> json \<Rightarrow> nat \<Rightarrow> container \<times> nat
     \<Rightarrow> (container_error + injected) \<times> (container \<times> nat)" where
  "createProblemWidget createTreeContainer defaultTreeProps MARKER_CONTEXT_MENU k w =
     (case createProblemTreeContainer createTreeContainer defaultTreeProps MARKER_CONTEXT_MENU (fst w) of
        Inl e \<Rightarrow> (Inl e, w)
      | Inr child \<Rightarrow> get k ''ProblemWidget'' (child, snd w))"

section \<open>The monaco frontend module (monaco-frontend-module.ts)\<close>



subsection \<open>Notions for reasoning about resolution\<close>






section \<open>The monaco editor provider (monaco-editor-provider.ts)\<close>

text \<open>
  What becomes of a promise, on a logical clock that counts the turns of the event loop:
  it never settles, or it resolves at a time with a value, or it rejects at a time with a
  reason.
\<close>

datatype ('e, 'a) eventual = Never | ResolvesAt nat 'a | RejectsAt nat 'e

text \<open>
  \<^verbatim>\<open>Promise.all\<close> of two promises rejects with the first rejection and resolves, once
  both have resolved, with both values. \<^verbatim>\<open>then\<close> runs its callback when the promise
  resolves; the callback is given the time it runs at, to read the state of that moment.
\<close>

definition Promise_all :: "('e, 'a) eventual \<Rightarrow> ('e, 'b) eventual \<Rightarrow> ('e, 'a \<times> 'b) eventual" where
  "Promise_all p q =
     (case (p, q) of
        (RejectsAt t e, RejectsAt t' e') \<Rightarrow> if t \<le> t' then RejectsAt t e else RejectsAt t' e'
      | (RejectsAt t e, _) \<Rightarrow> RejectsAt t e
      | (_, RejectsAt t' e') \<Rightarrow> RejectsAt t' e'
      | (ResolvesAt t a, ResolvesAt t' b) \<Rightarrow> ResolvesAt (max t t') (a, b)
      | _ \<Rightarrow> Never)"

definition then_resolved :: "('e, 'a) eventual \<Rightarrow> (nat \<Rightarrow> 'a \<Rightarrow> 'b) \<Rightarrow> ('e, 'b) eventual" where
  "then_resolved p onfulfilled =
     (case p of
        Never \<Rightarrow> Never
      | ResolvesAt t a \<Rightarrow> ResolvesAt t (onfulfilled t a)
      | RejectsAt t e \<Rightarrow> RejectsAt t e)"

text \<open>
  The text model, of which the provider sets the tab size; the editor model with its text
  model and its read-only flag; the reference to it; the editor preferences the provider
  reads; the options of the editor. A \<^verbatim>\<open>MonacoEditor\<close> is kept as the URI and the
  options it was constructed with: the DOM node, the converters, the workspace and the
  services are handed through to the constructor as they are.
\<close>

record ITextModelUpdateOptions =
  tabSize :: nat

record ITextModel =
  modelOptions :: ITextModelUpdateOptions

record MonacoEditorModel =
  textEditorModel :: ITextModel
  readOnly :: bool

record IReference =
  object :: MonacoEditorModel

record EditorPreferences =
  editor_tabSize :: nat
  editor_lineNumbers :: string
  editor_renderWhitespace :: string

record IOptions =
  model :: ITextModel
  wordWrap :: string
  folding :: bool
  lineNumbers :: string
  renderWhitespace :: string
  glyphMargin :: bool
  readOnly :: bool

record MonacoEditor =
  uri :: string
  options :: IOptions

text \<open>
  What the provider is injected with: \<^verbatim>\<open>textModelService.createModelReference\<close>,
  \<^verbatim>\<open>editorPreferences.ready\<close>, and the values of the preferences at each time.
\<close>

record 'e MonacoEditorProvider =
  createModelReference :: "string \<Rightarrow> ('e, IReference) eventual"
  ready :: "('e, unit) eventual"
  editorPreferences :: "nat \<Rightarrow> EditorPreferences"

definition updateOptions :: "ITextModel \<Rightarrow> ITextModelUpdateOptions \<Rightarrow> ITextModel" where
  "updateOptions m newOpts = m\<lparr>modelOptions := newOpts\<rparr>"

definition getModelOptions :: "EditorPreferences \<Rightarrow> ITextModelUpdateOptions" where
  "getModelOptions preferences = \<lparr>tabSize = editor_tabSize preferences\<rparr>"

definition getEditorOptions :: "EditorPreferences \<Rightarrow> MonacoEditorModel \<Rightarrow> IOptions" where
  "getEditorOptions preferences m =
     \<lparr>model = textEditorModel m,
      wordWrap = ''off'',
      folding = True,
      lineNumbers = editor_lineNumbers preferences,
      renderWhitespace = editor_renderWhitespace preferences,
      glyphMargin = True,
      readOnly = MonacoEditorModel.readOnly m\<rparr>"

text \<open>\<^verbatim>\<open>MonacoEditorProvider.get\<close>.\<close>

definition MonacoEditorProvider_get :: "'e MonacoEditorProvider \<Rightarrow> string \<Rightarrow> ('e, MonacoEditor) eventual" where
  "MonacoEditorProvider_get this u =
     (let referencePromise = createModelReference this u;
          prefPromise = ready this
      in then_resolved (Promise_all referencePromise prefPromise)
           (\<lambda>now (reference, _).
              let m = object reference;
                  textEditorModel' =
                    updateOptions (textEditorModel m) (getModelOptions (editorPreferences this now));
                  m' = m\<lparr>textEditorModel := textEditorModel'\<rparr>
              in \<lparr>uri = u, options = getEditorOptions (editorPreferences this now) m'\<rparr>))"

section \<open>Example inputs\<close>



definition web_generator :: generator where
  "web_generator =
     \<lparr>compileCopyright = ''/* Copyright (C) 2017 TypeFox and others. */'',
      node_modulesPath = ''../../node_modules'',
      target = ''web'',
      isWeb = True,
      isElectron = False\<rparr>"


text \<open>
  An example of what \<^verbatim>\<open>createTreeContainer\<close> may return: a child of the given
  container, in singleton scope, that binds the tree, the model, the widget and the default
  properties.
\<close>

definition example_createTreeContainer :: "(string \<times> json) list \<Rightarrow> container \<Rightarrow> container" where
  "example_createTreeContainer defaultTreeProps parent0 =
     (case statements
          [bind ''Tree'' toSelf,
           bind ''ITree'' (toDynamicValue ''Tree''),
           bind ''TreeModel'' toSelf,
           bind ''ITreeModel'' (toDynamicValue ''TreeModel''),
           bind ''TreeWidget'' toSelf,
           bind ''TreeProps'' (toConstantValue defaultTreeProps)]
          (Container [] (Some parent0) Singleton) of
        Inr child \<Rightarrow> child
      | Inl e \<Rightarrow> Container [] (Some parent0) Singleton)"

definition example_parent :: container where
  "example_parent =
     Container
       [\<lparr>serviceIdentifier = ''TreeWidget'', bindingType = Instance ''TreeWidget'',
         scope = Transient, cache = None\<rparr>]
       None Transient"

definition example_defaultTreeProps :: "(string \<times> json) list" where
  "example_defaultTreeProps = [(''leftPadding'', JNumber ''16'')]"

definition example_MARKER_CONTEXT_MENU :: json where
  "example_MARKER_CONTEXT_MENU = JArray [JString ''problems-context-menu'']"

definition example_reference :: IReference where
  "example_reference =
     \<lparr>object = \<lparr>textEditorModel = \<lparr>modelOptions = \<lparr>tabSize = 8\<rparr>\<rparr>, readOnly = True\<rparr>\<rparr>"

text \<open>
  A provider whose model reference is created at time 3 and whose preferences are ready at
  time 5; the line numbers are switched off at time 4.
\<close>

definition example_provider :: "unit MonacoEditorProvider" where
  "example_provider =
     \<lparr>createModelReference = (\<lambda>u. ResolvesAt 3 example_reference),
      ready = ResolvesAt 5 (),
      editorPreferences =
        (\<lambda>t. \<lparr>editor_tabSize = 4,
                editor_lineNumbers = (if t < 4 then ''on'' else ''off''),
                editor_renderWhitespace = ''none''\<rparr>)\<rparr>"

section \<open>Properties of the webpack configuration generator\<close>

text \<open>
  C10: \<^verbatim>\<open>generate\<close> writes \<^verbatim>\<open>webpack.config.js\<close> only when no file of that name
  exists. A file that is already there is left as it is, whatever generator runs; no other
  file is touched; and running \<^verbatim>\<open>generate\<close> twice is the same as running it once.
\<close>

theorem generate_writes_only_when_absent:
  "(fs ''webpack.config.js'' = None \<longrightarrow>
      generate g fs = fs(''webpack.config.js'' \<mapsto> compileWebpackConfig g)) \<and>
   (fs ''webpack.config.js'' = Some old \<longrightarrow> generate g fs = fs) \<and>
   (p \<noteq> ''webpack.config.js'' \<longrightarrow> generate g fs p = fs p) \<and>
   generate g (generate g fs) = generate g fs \<and>
   generate g' (generate g fs) = generate g fs"
  by (simp add: generate_def fs_exists_def fs_write_def)

theorem generate_writes_only_when_absent_witness:
  "Map.empty ''webpack.config.js'' = None \<and>
   generate web_generator Map.empty =
     [''webpack.config.js'' \<mapsto> compileWebpackConfig web_generator] \<and>
   [''webpack.config.js'' \<mapsto> ''// edited by hand''] ''webpack.config.js''
     = Some ''// edited by hand'' \<and>
   generate web_generator [''webpack.config.js'' \<mapsto> ''// edited by hand'']
     = [''webpack.config.js'' \<mapsto> ''// edited by hand''] \<and>
   ''package.json'' \<noteq> ''webpack.config.js'' \<and>
   generate web_generator [''package.json'' \<mapsto> ''{}''] ''package.json'' = Some ''{}''"
  using generate_writes_only_when_absent [where fs = Map.empty and g = web_generator]
    generate_writes_only_when_absent
      [where fs = "[''webpack.config.js'' \<mapsto> ''// edited by hand'']"
         and old = "''// edited by hand''" and g = web_generator]
    generate_writes_only_when_absent
      [where fs = "[''package.json'' \<mapsto> ''{}'']" and g = web_generator
         and p = "''package.json''"]
  by simp

lemma lines_of_nonempty [simp]: "lines_of s \<noteq> []"
  by (induction s) auto





lemma nlines_append: "nlines (xs @ ys) = nlines xs @ nlines ys"
  by (simp add: nlines_def)



lemma nlines_continue: "xs \<noteq> [] \<Longrightarrow> nlines xs @ s = nlines (butlast xs @ [last xs @ s])"
  by (induction xs) (auto simp: nlines_def)









lemma sublist_in_left: "sublist x a \<Longrightarrow> sublist x (a @ b)"
  by (meson sublist_append_rightI sublist_order.order.trans)

lemma sublist_nlines_mono:
  "sublist (nlines xs) (nlines (a @ xs @ b))"
  by (simp add: nlines_append)











section \<open>Properties of the npm registry client\<close>

lemma encodeURIComponent_append:
  "encodeURIComponent (a @ b) = encodeURIComponent a @ encodeURIComponent b"
  by (simp add: encodeURIComponent_def)

lemma encodeURIComponent_slash:
  "encodeURIComponent (CHR ''/'' # s) = ''%2F'' @ encodeURIComponent s"
  by (simp add: encodeURIComponent_def uriUnescaped_def percentEncode_def hexDigit_def)

text \<open>
  C9: for a name that begins with \<^verbatim>\<open>@\<close> the URL is the registry, a literal
  \<^verbatim>\<open>@\<close> and the encoding of the rest of the name, in which the \<^verbatim>\<open>/\<close> between scope
  and package becomes \<^verbatim>\<open>%2F\<close>; for any other name it is the registry and the encoding
  of the whole name; the abbreviated-metadata \<^verbatim>\<open>Accept\<close> header is sent exactly when
  \<^verbatim>\<open>abbreviated\<close> is undefined or true, and no header is sent otherwise; the request
  is issued with exactly these options.
\<close>

theorem view_url_and_accept_header:
  "(name param = CHR ''@'' # rest \<longrightarrow>
      url (view_options param) = ''https://registry.npmjs.org/@'' @ encodeURIComponent rest) \<and>
   (name param = CHR ''@'' # org @ ''/'' @ pkg \<longrightarrow>
      url (view_options param) =
        ''https://registry.npmjs.org/@'' @ encodeURIComponent org @ ''%2F'' @
        encodeURIComponent pkg) \<and>
   ((\<forall>rest. name param \<noteq> CHR ''@'' # rest) \<longrightarrow>
      url (view_options param) = ''https://registry.npmjs.org/'' @ encodeURIComponent (name param)) \<and>
   (map_of (headers (view_options param)) ''Accept'' =
      Some ''application/vnd.npm.install-v1+json; q=1.0, application/json; q=0.8, */*''
    \<longleftrightarrow> abbreviated param = None \<or> abbreviated param = Some True) \<and>
   (abbreviated param = Some False \<longrightarrow> headers (view_options param) = []) \<and>
   view request param = view_callback (url (view_options param)) (request (view_options param))"
proof -
  have other: "take 1 (name param) \<noteq> ''@''" if "\<forall>rest. name param \<noteq> CHR ''@'' # rest"
    using that by (cases "name param") auto
  show ?thesis
    using other
    by (auto simp: view_options_def view_def Let_def encodeURIComponent_append
        encodeURIComponent_slash)
qed

theorem view_url_and_accept_header_witness:
  "name \<lparr>name = ''@theia/core'', abbreviated = None\<rparr> = CHR ''@'' # ''theia'' @ ''/'' @ ''core'' \<and>
   url (view_options \<lparr>name = ''@theia/core'', abbreviated = None\<rparr>)
     = ''https://registry.npmjs.org/@theia%2Fcore'' \<and>
   (\<forall>rest. name \<lparr>name = ''left-pad'', abbreviated = Some False\<rparr> \<noteq> CHR ''@'' # rest) \<and>
   url (view_options \<lparr>name = ''left-pad'', abbreviated = Some False\<rparr>)
     = ''https://registry.npmjs.org/left-pad'' \<and>
   abbreviated \<lparr>name = ''left-pad'', abbreviated = Some False\<rparr> = Some False \<and>
   headers (view_options \<lparr>name = ''left-pad'', abbreviated = Some False\<rparr>) = []"
  using view_url_and_accept_header
      [where param = "\<lparr>name = ''@theia/core'', abbreviated = None\<rparr>"
         and rest = "''theia/core''" and org = "''theia''" and pkg = "''core''"
         and request = "replying (None :: unit option, \<lparr>statusCode = 200, statusMessage = ''OK''\<rparr>, ''{}'')"]
    view_url_and_accept_header
      [where param = "\<lparr>name = ''left-pad'', abbreviated = Some False\<rparr>"
         and request = "replying (None :: unit option, \<lparr>statusCode = 200, statusMessage = ''OK''\<rparr>, ''{}'')"]
  by (simp add: encodeURIComponent_def uriUnescaped_def percentEncode_def hexDigit_def)

text \<open>
  The paths of the request callback on which it returns: an error of the request is passed
  on to \<^verbatim>\<open>reject\<close> as it is; for a status other than 200 \<^verbatim>\<open>reject\<close> gets an error whose
  message is the status code, the status message and the requested URL; with status 200
  and a body that is a JSON text \<^verbatim>\<open>resolve\<close> gets the parsed body.
\<close>

lemma view_callback_returns:
  "request (view_options param) = (err, response, body) \<Longrightarrow>
   (err = Some e \<longrightarrow> view request param = (Rejected (RequestError e), None)) \<and>
   (err = None \<and> statusCode response \<noteq> 200 \<longrightarrow>
      view request param =
        (Rejected (Error (decimal (statusCode response) @ '': '' @ statusMessage response @
                          '' for '' @ url (view_options param))), None)) \<and>
   (err = None \<and> statusCode response = 200 \<and> JSON_parse body = Some data \<longrightarrow>
      view request param = (Resolved data, None))"
  by (auto simp: view_def view_callback_def Let_def split: option.splits)

lemma JSON_parse_dist_tags:
  \<open>JSON_parse ''{"dist-tags":{"latest":"0.1.1"}}''
     = Some (JObject [(''dist-tags'', JObject [(''latest'', JString ''0.1.1'')])])\<close>
  by code_simp

lemma JSON_parse_html: "JSON_parse ''<html></html>'' = None"
  by code_simp

text \<open>
  C8: the promise should reject when the request fails or the status is not 200, and
  otherwise resolve with the parsed body. The code misses a case. The request succeeds
  with status 200 and a body that is not a JSON text (an HTML page): \<^verbatim>\<open>JSON.parse\<close> throws
  inside the request callback, outside any \<^verbatim>\<open>try\<close>, so neither \<^verbatim>\<open>resolve\<close> nor
  \<^verbatim>\<open>reject\<close> is called. The promise stays pending for ever and the \<^verbatim>\<open>SyntaxError\<close>
  leaves the callback, while the two other failing paths of the callback settle the
  promise with \<^verbatim>\<open>reject\<close>.
\<close>

theorem view_unparsable_body_never_settles:
  "view (replying (None :: unit option, \<lparr>statusCode = 200, statusMessage = ''OK''\<rparr>,
       ''<html></html>''))
     \<lparr>name = ''@theia/core'', abbreviated = None\<rparr>
   = (Pending, Some SyntaxError)"
  using JSON_parse_html
  by (simp add: view_def view_callback_def replying_def Let_def)

section \<open>Properties of the problem tree container\<close>

lemma isBound_filter:
  "isBound c sid \<longleftrightarrow> filter (\<lambda>b. serviceIdentifier b = sid) (bindings c) \<noteq> []"
  by (auto simp: isBound_def filter_empty_conv)

lemma unbind_bound:
  "filter (\<lambda>b. serviceIdentifier b = sid) bs \<noteq> [] \<Longrightarrow>
   unbind sid (Container bs p ds) =
     Inr (Container (filter (\<lambda>b. serviceIdentifier b \<noteq> sid) bs) p ds)"
  by (simp add: unbind_def isBound_filter)

lemma bind_Container:
  "bind sid syntax (Container bs p ds) =
     Inr (Container
       (bs @ [syntax \<lparr>serviceIdentifier = sid, bindingType = Invalid, scope = ds, cache = None\<rparr>])
       p ds)"
  by (simp add: bind_def)

lemma rebind_bound:
  "filter (\<lambda>b. serviceIdentifier b = sid) bs \<noteq> [] \<Longrightarrow>
   rebind sid syntax (Container bs p ds) =
     Inr (Container
       (filter (\<lambda>b. serviceIdentifier b \<noteq> sid) bs @
        [syntax \<lparr>serviceIdentifier = sid, bindingType = Invalid, scope = ds, cache = None\<rparr>])
       p ds)"
  by (simp add: rebind_def unbind_bound bind_Container)

lemma filter_is_filter_not:
  "filter (\<lambda>b. serviceIdentifier b = x) (filter (\<lambda>b. serviceIdentifier b \<noteq> y) bs) =
     (if x = y then [] else filter (\<lambda>b. serviceIdentifier b = x) bs)"
  by (induction bs) auto

lemma getBindings_own:
  "filter (\<lambda>b. serviceIdentifier b = sid) bs \<noteq> [] \<Longrightarrow>
   getBindings (Container bs p ds) sid = map (Pair 0) (filter (\<lambda>b. serviceIdentifier b = sid) bs)"
  by (auto simp: filter_empty_conv)

lemma syntax_simps:
  "serviceIdentifier (toSelf b) = serviceIdentifier b"
  "serviceIdentifier (toDynamicValue s b) = serviceIdentifier b"
  "serviceIdentifier (toConstantValue v b) = serviceIdentifier b"
  "bindingType (toSelf b) = Instance (serviceIdentifier b)"
  "bindingType (toDynamicValue s b) = DynamicValue s"
  "bindingType (toConstantValue v b) = ConstantValue (Plain v)"
  "scope (toSelf b) = scope b" "scope (toDynamicValue s b) = scope b"
  "scope (toConstantValue v b) = scope b"
  "cache (toSelf b) = cache b" "cache (toDynamicValue s b) = cache b"
  "cache (toConstantValue v b) = cache b"
  by (simp_all add: toSelf_def toDynamicValue_def toConstantValue_def)

lemma createProblemTreeContainer_result:
  assumes c0: "createTreeContainer p = Container bs pp ds"
    and b: "filter (\<lambda>b. serviceIdentifier b = ''Tree'') bs \<noteq> []"
      "filter (\<lambda>b. serviceIdentifier b = ''ITree'') bs \<noteq> []"
      "filter (\<lambda>b. serviceIdentifier b = ''TreeWidget'') bs \<noteq> []"
      "filter (\<lambda>b. serviceIdentifier b = ''TreeModel'') bs \<noteq> []"
      "filter (\<lambda>b. serviceIdentifier b = ''ITreeModel'') bs \<noteq> []"
      "filter (\<lambda>b. serviceIdentifier b = ''TreeProps'') bs \<noteq> []"
  shows "createProblemTreeContainer createTreeContainer d m p =
    Inr (Container (filter (\<lambda>b. serviceIdentifier b \<noteq> ''TreeProps'')
           (filter (\<lambda>b. serviceIdentifier b \<noteq> ''ITreeModel'')
             (filter (\<lambda>b. serviceIdentifier b \<noteq> ''TreeModel'')
               (filter (\<lambda>b. serviceIdentifier b \<noteq> ''TreeWidget'')
                 (filter (\<lambda>b. serviceIdentifier b \<noteq> ''ITree'')
                   (filter (\<lambda>b. serviceIdentifier b \<noteq> ''Tree'') bs))))) @
          [toSelf
            \<lparr>serviceIdentifier = ''ProblemTree'', bindingType = Invalid,
               scope = ds, cache = None\<rparr>,
           toDynamicValue ''ProblemTree''
            \<lparr>serviceIdentifier = ''ITree'', bindingType = Invalid,
               scope = ds, cache = None\<rparr>,
           toSelf
            \<lparr>serviceIdentifier = ''ProblemWidget'', bindingType = Invalid,
               scope = ds, cache = None\<rparr>,
           toSelf
            \<lparr>serviceIdentifier = ''ProblemTreeModel'', bindingType = Invalid,
               scope = ds, cache = None\<rparr>,
           toDynamicValue ''ProblemTreeModel''
            \<lparr>serviceIdentifier = ''ITreeModel'', bindingType = Invalid,
               scope = ds, cache = None\<rparr>,
           toSelf
            \<lparr>serviceIdentifier = ''MarkerTreeServices'',
               bindingType = Invalid, scope = ds, cache = None\<rparr>,
           toConstantValue (MARKER_TREE_PROPS d m)
            \<lparr>serviceIdentifier = ''TreeProps'', bindingType = Invalid,
               scope = ds, cache = None\<rparr>,
           toConstantValue MARKER_OPTIONS
            \<lparr>serviceIdentifier = ''MarkerOptions'', bindingType = Invalid,
               scope = ds, cache = None\<rparr>]
) pp ds)"
  using b
  by (simp add: createProblemTreeContainer_def c0 unbind_bound rebind_bound bind_Container
      syntax_simps filter_is_filter_not del: filter_filter)

text \<open>
  C4: let \<^verbatim>\<open>createTreeContainer\<close> return a child of the parent that binds
  \<^verbatim>\<open>Tree\<close>, \<^verbatim>\<open>ITree\<close>, \<^verbatim>\<open>TreeWidget\<close>, \<^verbatim>\<open>TreeModel\<close>, \<^verbatim>\<open>ITreeModel\<close> and
  \<^verbatim>\<open>TreeProps\<close> and does not yet bind the three problem classes. Then
  \<^verbatim>\<open>createProblemTreeContainer\<close> returns a container with the same parent, unchanged,
  in which \<^verbatim>\<open>ITree\<close> resolves to a \<^verbatim>\<open>ProblemTree\<close> instance, \<^verbatim>\<open>ITreeModel\<close> to a
  \<^verbatim>\<open>ProblemTreeModel\<close> instance, \<^verbatim>\<open>TreeWidget\<close> is no longer bound while
  \<^verbatim>\<open>ProblemWidget\<close> is, and \<^verbatim>\<open>TreeProps\<close> resolves to \<^verbatim>\<open>MARKER_TREE_PROPS\<close>,
  which is \<^verbatim>\<open>defaultTreeProps\<close> with \<^verbatim>\<open>contextMenuPath\<close> set to
  \<^verbatim>\<open>MARKER_CONTEXT_MENU\<close>.
\<close>

theorem createProblemTreeContainer_rebinds:
  assumes par: "parent (createTreeContainer parent0) = Some parent0"
    and bound: "\<forall>sid \<in> set [''Tree'', ''ITree'', ''TreeWidget'', ''TreeModel'', ''ITreeModel'', ''TreeProps''].
                  isBound (createTreeContainer parent0) sid"
    and unbound: "\<forall>sid \<in> set [''ProblemTree'', ''ProblemWidget'', ''ProblemTreeModel''].
                  \<not> isBound (createTreeContainer parent0) sid"
  shows "\<exists>child.
     createProblemTreeContainer createTreeContainer d m parent0
       = Inr child \<and>
     parent child = Some parent0 \<and>
     fst (get (Suc (Suc k)) ''ITree'' (child, n)) = Inr (Obj ''ProblemTree'' n) \<and>
     fst (get (Suc (Suc k)) ''ITreeModel'' (child, n)) = Inr (Obj ''ProblemTreeModel'' n) \<and>
     \<not> isBound child ''TreeWidget'' \<and>
     fst (get (Suc k) ''ProblemWidget'' (child, n)) = Inr (Obj ''ProblemWidget'' n) \<and>
     fst (get (Suc k) ''TreeProps'' (child, n))
       = Inr (Plain (MARKER_TREE_PROPS d m)) \<and>
     map_of (MARKER_TREE_PROPS d m)
       = (map_of d)(''contextMenuPath'' \<mapsto> m)"
proof -
  obtain bs pp ds where c0: "createTreeContainer parent0 = Container bs pp ds"
    by (cases "createTreeContainer parent0") auto
  have pp: "pp = Some parent0"
    using par by (simp add: c0)
  have b: "filter (\<lambda>b. serviceIdentifier b = ''Tree'') bs \<noteq> []"
      "filter (\<lambda>b. serviceIdentifier b = ''ITree'') bs \<noteq> []"
      "filter (\<lambda>b. serviceIdentifier b = ''TreeWidget'') bs \<noteq> []"
      "filter (\<lambda>b. serviceIdentifier b = ''TreeModel'') bs \<noteq> []"
      "filter (\<lambda>b. serviceIdentifier b = ''ITreeModel'') bs \<noteq> []"
      "filter (\<lambda>b. serviceIdentifier b = ''TreeProps'') bs \<noteq> []"
    using bound by (simp_all add: c0 isBound_filter)
  have u: "filter (\<lambda>b. serviceIdentifier b = ''ProblemTree'') bs = []"
    "filter (\<lambda>b. serviceIdentifier b = ''ProblemWidget'') bs = []"
    "filter (\<lambda>b. serviceIdentifier b = ''ProblemTreeModel'') bs = []"
    using unbound by (simp_all add: c0 isBound_filter)
  define child where "child = Container (filter (\<lambda>b. serviceIdentifier b \<noteq> ''TreeProps'')
           (filter (\<lambda>b. serviceIdentifier b \<noteq> ''ITreeModel'')
             (filter (\<lambda>b. serviceIdentifier b \<noteq> ''TreeModel'')
               (filter (\<lambda>b. serviceIdentifier b \<noteq> ''TreeWidget'')
                 (filter (\<lambda>b. serviceIdentifier b \<noteq> ''ITree'')
                   (filter (\<lambda>b. serviceIdentifier b \<noteq> ''Tree'') bs))))) @
          [toSelf
            \<lparr>serviceIdentifier = ''ProblemTree'', bindingType = Invalid,
               scope = ds, cache = None\<rparr>,
           toDynamicValue ''ProblemTree''
            \<lparr>serviceIdentifier = ''ITree'', bindingType = Invalid,
               scope = ds, cache = None\<rparr>,
           toSelf
            \<lparr>serviceIdentifier = ''ProblemWidget'', bindingType = Invalid,
               scope = ds, cache = None\<rparr>,
           toSelf
            \<lparr>serviceIdentifier = ''ProblemTreeModel'', bindingType = Invalid,
               scope = ds, cache = None\<rparr>,
           toDynamicValue ''ProblemTreeModel''
            \<lparr>serviceIdentifier = ''ITreeModel'', bindingType = Invalid,
               scope = ds, cache = None\<rparr>,
           toSelf
            \<lparr>serviceIdentifier = ''MarkerTreeServices'',
               bindingType = Invalid, scope = ds, cache = None\<rparr>,
           toConstantValue (MARKER_TREE_PROPS d m)
            \<lparr>serviceIdentifier = ''TreeProps'', bindingType = Invalid,
               scope = ds, cache = None\<rparr>,
           toConstantValue MARKER_OPTIONS
            \<lparr>serviceIdentifier = ''MarkerOptions'', bindingType = Invalid,
               scope = ds, cache = None\<rparr>]
) pp ds"
  have r: "createProblemTreeContainer createTreeContainer d m parent0 = Inr child"
    unfolding child_def
    by (rule createProblemTreeContainer_result [where createTreeContainer = createTreeContainer, OF c0 b])
  have g1: "getBindings child ''ProblemTree'' =
      [(0, toSelf \<lparr>serviceIdentifier = ''ProblemTree'', bindingType = Invalid, scope = ds, cache = None\<rparr>)]"
    using u unfolding child_def
    by (simp add: getBindings_own filter_is_filter_not syntax_simps
        del: filter_filter getBindings.simps)
  have g2: "getBindings child ''ITree'' =
      [(0, toDynamicValue ''ProblemTree''
             \<lparr>serviceIdentifier = ''ITree'', bindingType = Invalid, scope = ds, cache = None\<rparr>)]"
    unfolding child_def
    by (simp add: getBindings_own filter_is_filter_not syntax_simps
        del: filter_filter getBindings.simps)
  have g3: "getBindings child ''ProblemTreeModel'' =
      [(0, toSelf \<lparr>serviceIdentifier = ''ProblemTreeModel'', bindingType = Invalid, scope = ds, cache = None\<rparr>)]"
    using u unfolding child_def
    by (simp add: getBindings_own filter_is_filter_not syntax_simps
        del: filter_filter getBindings.simps)
  have g4: "getBindings child ''ITreeModel'' =
      [(0, toDynamicValue ''ProblemTreeModel''
             \<lparr>serviceIdentifier = ''ITreeModel'', bindingType = Invalid, scope = ds, cache = None\<rparr>)]"
    unfolding child_def
    by (simp add: getBindings_own filter_is_filter_not syntax_simps
        del: filter_filter getBindings.simps)
  have g5: "getBindings child ''ProblemWidget'' =
      [(0, toSelf \<lparr>serviceIdentifier = ''ProblemWidget'', bindingType = Invalid, scope = ds, cache = None\<rparr>)]"
    using u unfolding child_def
    by (simp add: getBindings_own filter_is_filter_not syntax_simps
        del: filter_filter getBindings.simps)
  have g6: "getBindings child ''TreeProps'' =
      [(0, toConstantValue (MARKER_TREE_PROPS d m)
             \<lparr>serviceIdentifier = ''TreeProps'', bindingType = Invalid, scope = ds, cache = None\<rparr>)]"
    unfolding child_def
    by (simp add: getBindings_own filter_is_filter_not syntax_simps
        del: filter_filter getBindings.simps)
  have w: "\<not> isBound child ''TreeWidget''"
    unfolding child_def
    by (simp add: isBound_filter filter_is_filter_not syntax_simps del: filter_filter)
  have e1: "fst (get (Suc (Suc k)) ''ITree'' (child, n)) = Inr (Obj ''ProblemTree'' n)"
    by (simp add: g1 g2 syntax_simps del: getBindings.simps)
  have e2: "fst (get (Suc (Suc k)) ''ITreeModel'' (child, n)) = Inr (Obj ''ProblemTreeModel'' n)"
    by (simp add: g3 g4 syntax_simps del: getBindings.simps)
  have e3: "fst (get (Suc k) ''ProblemWidget'' (child, n)) = Inr (Obj ''ProblemWidget'' n)"
    by (simp add: g5 syntax_simps del: getBindings.simps)
  have e4: "fst (get (Suc k) ''TreeProps'' (child, n)) = Inr (Plain (MARKER_TREE_PROPS d m))"
    by (simp add: g6 syntax_simps del: getBindings.simps)
  have e5: "map_of (MARKER_TREE_PROPS d m) = (map_of d)(''contextMenuPath'' \<mapsto> m)"
    by (simp add: MARKER_TREE_PROPS_def update_conv')
  have p: "parent child = Some parent0"
    by (simp add: pp child_def)
  show ?thesis
    using r p e1 e2 w e3 e4 e5 by blast
qed


theorem createProblemTreeContainer_rebinds_witness:
  "parent (example_createTreeContainer example_defaultTreeProps example_parent)
     = Some example_parent \<and>
   isBound (example_createTreeContainer example_defaultTreeProps example_parent) ''Tree'' \<and>
   isBound (example_createTreeContainer example_defaultTreeProps example_parent) ''ITree'' \<and>
   isBound (example_createTreeContainer example_defaultTreeProps example_parent) ''TreeWidget'' \<and>
   isBound (example_createTreeContainer example_defaultTreeProps example_parent) ''TreeModel'' \<and>
   isBound (example_createTreeContainer example_defaultTreeProps example_parent) ''ITreeModel'' \<and>
   isBound (example_createTreeContainer example_defaultTreeProps example_parent) ''TreeProps'' \<and>
   \<not> isBound (example_createTreeContainer example_defaultTreeProps example_parent) ''ProblemTree'' \<and>
   \<not> isBound (example_createTreeContainer example_defaultTreeProps example_parent) ''ProblemWidget'' \<and>
   \<not> isBound (example_createTreeContainer example_defaultTreeProps example_parent) ''ProblemTreeModel'' \<and>
   (\<exists>child.
     createProblemTreeContainer (example_createTreeContainer example_defaultTreeProps)
       example_defaultTreeProps example_MARKER_CONTEXT_MENU example_parent = Inr child \<and>
     parent child = Some example_parent \<and>
     fst (get (Suc (Suc 0)) ''ITree'' (child, 0)) = Inr (Obj ''ProblemTree'' 0) \<and>
     fst (get (Suc (Suc 0)) ''ITreeModel'' (child, 0)) = Inr (Obj ''ProblemTreeModel'' 0) \<and>
     \<not> isBound child ''TreeWidget'' \<and>
     fst (get (Suc 0) ''ProblemWidget'' (child, 0)) = Inr (Obj ''ProblemWidget'' 0) \<and>
     fst (get (Suc 0) ''TreeProps'' (child, 0))
       = Inr (Plain (MARKER_TREE_PROPS example_defaultTreeProps example_MARKER_CONTEXT_MENU)) \<and>
     map_of (MARKER_TREE_PROPS example_defaultTreeProps example_MARKER_CONTEXT_MENU)
       = (map_of example_defaultTreeProps)(''contextMenuPath'' \<mapsto> example_MARKER_CONTEXT_MENU))"
proof -
  have c: "example_createTreeContainer example_defaultTreeProps example_parent =
      Container
        [toSelf \<lparr>serviceIdentifier = ''Tree'', bindingType = Invalid, scope = Singleton, cache = None\<rparr>,
         toDynamicValue ''Tree''
           \<lparr>serviceIdentifier = ''ITree'', bindingType = Invalid, scope = Singleton, cache = None\<rparr>,
         toSelf \<lparr>serviceIdentifier = ''TreeModel'', bindingType = Invalid, scope = Singleton, cache = None\<rparr>,
         toDynamicValue ''TreeModel''
           \<lparr>serviceIdentifier = ''ITreeModel'', bindingType = Invalid, scope = Singleton, cache = None\<rparr>,
         toSelf \<lparr>serviceIdentifier = ''TreeWidget'', bindingType = Invalid, scope = Singleton, cache = None\<rparr>,
         toConstantValue example_defaultTreeProps
           \<lparr>serviceIdentifier = ''TreeProps'', bindingType = Invalid, scope = Singleton, cache = None\<rparr>]
        (Some example_parent) Singleton"
    by (simp add: example_createTreeContainer_def bind_Container)
  have h1: "parent (example_createTreeContainer example_defaultTreeProps example_parent)
      = Some example_parent"
    by (simp add: c)
  have h2: "\<forall>sid \<in> set [''Tree'', ''ITree'', ''TreeWidget'', ''TreeModel'', ''ITreeModel'', ''TreeProps''].
      isBound (example_createTreeContainer example_defaultTreeProps example_parent) sid"
    by (simp add: c isBound_def syntax_simps)
  have h3: "\<forall>sid \<in> set [''ProblemTree'', ''ProblemWidget'', ''ProblemTreeModel''].
      \<not> isBound (example_createTreeContainer example_defaultTreeProps example_parent) sid"
    by (simp add: c isBound_def syntax_simps)
  have b: "isBound (example_createTreeContainer example_defaultTreeProps example_parent) ''Tree''" "isBound (example_createTreeContainer example_defaultTreeProps example_parent) ''ITree''" "isBound (example_createTreeContainer example_defaultTreeProps example_parent) ''TreeWidget''"
    "isBound (example_createTreeContainer example_defaultTreeProps example_parent) ''TreeModel''" "isBound (example_createTreeContainer example_defaultTreeProps example_parent) ''ITreeModel''" "isBound (example_createTreeContainer example_defaultTreeProps example_parent) ''TreeProps''"
    "\<not> isBound (example_createTreeContainer example_defaultTreeProps example_parent) ''ProblemTree''" "\<not> isBound (example_createTreeContainer example_defaultTreeProps example_parent) ''ProblemWidget''"
    "\<not> isBound (example_createTreeContainer example_defaultTreeProps example_parent) ''ProblemTreeModel''"
    using h2 h3 by simp_all
  show ?thesis
    using h1 b
      createProblemTreeContainer_rebinds
        [where createTreeContainer = "example_createTreeContainer example_defaultTreeProps"
           and ?parent0.0 = example_parent and d = example_defaultTreeProps
           and m = example_MARKER_CONTEXT_MENU and k = 0 and n = 0, OF h1 h2 h3]
    by blast
qed

section \<open>Properties of the monaco frontend module\<close>






















section \<open>Properties of the monaco editor provider\<close>

text \<open>
  C7: when the promise returned by \<^verbatim>\<open>get\<close> resolves, the model reference for the URI
  has been created and the preferences are ready, both no later than that; the editor is
  constructed for the URI with the model of the reference, word wrap \<^verbatim>\<open>off\<close>, folding
  and glyph margin enabled, the read-only flag of the model, and the values the
  \<^verbatim>\<open>editor.lineNumbers\<close> and \<^verbatim>\<open>editor.renderWhitespace\<close> preferences have at that
  time. Conversely, once both have resolved the promise resolves.
\<close>

theorem get_resolves_after_both:
  "(MonacoEditorProvider_get this u = ResolvesAt t editor \<longrightarrow>
      (\<exists>t1 t2 reference.
         createModelReference this u = ResolvesAt t1 reference \<and>
         ready this = ResolvesAt t2 () \<and>
         t1 \<le> t \<and> t2 \<le> t \<and> (t = t1 \<or> t = t2) \<and>
         uri editor = u \<and>
         options editor =
           \<lparr>model = updateOptions (textEditorModel (object reference))
                      \<lparr>tabSize = editor_tabSize (editorPreferences this t)\<rparr>,
            wordWrap = ''off'',
            folding = True,
            lineNumbers = editor_lineNumbers (editorPreferences this t),
            renderWhitespace = editor_renderWhitespace (editorPreferences this t),
            glyphMargin = True,
            readOnly = MonacoEditorModel.readOnly (object reference)\<rparr>)) \<and>
   (createModelReference this u = ResolvesAt t1 reference \<and> ready this = ResolvesAt t2 () \<longrightarrow>
      (\<exists>editor. MonacoEditorProvider_get this u = ResolvesAt (max t1 t2) editor))"
  by (auto simp: MonacoEditorProvider_get_def Promise_all_def then_resolved_def Let_def
      getEditorOptions_def getModelOptions_def max_def
      split: eventual.splits if_splits)


theorem get_resolves_after_both_witness:
  "MonacoEditorProvider_get example_provider ''file:///a.ts'' =
     ResolvesAt 5
       \<lparr>uri = ''file:///a.ts'',
        options =
          \<lparr>model = \<lparr>modelOptions = \<lparr>tabSize = 4\<rparr>\<rparr>, wordWrap = ''off'', folding = True,
           lineNumbers = ''off'', renderWhitespace = ''none'', glyphMargin = True,
           readOnly = True\<rparr>\<rparr> \<and>
   createModelReference example_provider ''file:///a.ts'' = ResolvesAt 3 example_reference \<and>
   ready example_provider = ResolvesAt 5 () \<and>
   (\<exists>t1 t2 reference.
      createModelReference example_provider ''file:///a.ts'' = ResolvesAt t1 reference \<and>
      ready example_provider = ResolvesAt t2 () \<and> t1 \<le> 5 \<and> t2 \<le> 5) \<and>
   (\<exists>editor. MonacoEditorProvider_get example_provider ''file:///a.ts''
      = ResolvesAt (max 3 5) editor)"
proof -
  have g: "MonacoEditorProvider_get example_provider ''file:///a.ts'' =
     ResolvesAt 5
       \<lparr>uri = ''file:///a.ts'',
        options =
          \<lparr>model = \<lparr>modelOptions = \<lparr>tabSize = 4\<rparr>\<rparr>, wordWrap = ''off'', folding = True,
           lineNumbers = ''off'', renderWhitespace = ''none'', glyphMargin = True,
           readOnly = True\<rparr>\<rparr>"
    by (simp add: MonacoEditorProvider_get_def Promise_all_def then_resolved_def Let_def
        getEditorOptions_def getModelOptions_def updateOptions_def example_provider_def
        example_reference_def)
  have r: "createModelReference example_provider ''file:///a.ts'' = ResolvesAt 3 example_reference"
    "ready example_provider = ResolvesAt 5 ()"
    by (simp_all add: example_provider_def)
  show ?thesis
    using g r
      get_resolves_after_both
        [where this = example_provider and u = "''file:///a.ts''" and t = 5
           and ?t1.0 = 3 and ?t2.0 = 5 and reference = example_reference
           and editor = "\<lparr>uri = ''file:///a.ts'',
              options =
                \<lparr>model = \<lparr>modelOptions = \<lparr>tabSize = 4\<rparr>\<rparr>, wordWrap = ''off'', folding = True,
                 lineNumbers = ''off'', renderWhitespace = ''none'', glyphMargin = True,
                 readOnly = True\<rparr>\<rparr>"]
    by auto
qed

end
